theory Spec2Isabelle
  imports Main
begin

section \<open>Strings\<close>

text \<open>
  A Python \<open>str\<close> is a sequence of Unicode code points and \<open>len\<close> counts them. The
  arguments of the validator are such sequences: a \<open>pystr\<close> is a list of code points,
  each a natural number, and \<^const>\<open>length\<close> is \<open>len\<close>. The string literals of the
  source, and the messages built from them and from decimal digits, are ASCII and are
  written as \<^typ>\<open>string\<close>; \<open>codepoints\<close> gives the code points of a literal where the
  code compares it with an argument.
\<close>

type_synonym pystr = "nat list"

definition codepoints :: "string \<Rightarrow> pystr" where
  "codepoints s = map of_char s"

text \<open>
  \<open>str.lower\<close> goes through the string and replaces each code point by its full
  lowercase mapping, which may be several code points. The capital sigma U+03A3 is the
  one exception: it becomes the final sigma U+03C2 when a cased letter comes before it
  and none comes after it, case-ignorable code points being skipped on both sides, and
  the small sigma U+03C3 otherwise. Below U+0100 the mapping is written out. From
  U+0100 on, the mapping and the two properties come from the Unicode database of the
  interpreter: they are the parameter \<open>ucd\<close>, and nothing is assumed about it.
\<close>

record unicode_data =
  to_lower_full :: "nat \<Rightarrow> pystr"
  is_cased :: "nat \<Rightarrow> bool"
  is_case_ignorable :: "nat \<Rightarrow> bool"

definition lower_latin1 :: "nat \<Rightarrow> nat" where
  "lower_latin1 c =
     (if (0x41 \<le> c \<and> c \<le> 0x5A) \<or> (0xC0 \<le> c \<and> c \<le> 0xD6) \<or> (0xD8 \<le> c \<and> c \<le> 0xDE)
      then c + 0x20 else c)"

fun first_not_ignorable :: "unicode_data \<Rightarrow> pystr \<Rightarrow> nat option" where
  "first_not_ignorable ucd [] = None"
| "first_not_ignorable ucd (c # cs) =
     (if is_case_ignorable ucd c then first_not_ignorable ucd cs else Some c)"

definition handle_capital_sigma :: "unicode_data \<Rightarrow> pystr \<Rightarrow> pystr \<Rightarrow> nat" where
  "handle_capital_sigma ucd before after =
     (let final_sigma =
            (case first_not_ignorable ucd (rev before) of
               None \<Rightarrow> False
             | Some c \<Rightarrow> is_cased ucd c);
          final_sigma =
            (if final_sigma
             then (case first_not_ignorable ucd after of
                     None \<Rightarrow> True
                   | Some c \<Rightarrow> \<not> is_cased ucd c)
             else final_sigma)
      in if final_sigma then 0x3C2 else 0x3C3)"

definition lower_ucs4 :: "unicode_data \<Rightarrow> pystr \<Rightarrow> nat \<Rightarrow> pystr \<Rightarrow> pystr" where
  "lower_ucs4 ucd before c after =
     (if c = 0x3A3 then [handle_capital_sigma ucd before after]
      else if c < 0x100 then [lower_latin1 c]
      else to_lower_full ucd c)"

fun do_lower :: "unicode_data \<Rightarrow> pystr \<Rightarrow> pystr \<Rightarrow> pystr" where
  "do_lower ucd before [] = []"
| "do_lower ucd before (c # after) =
     lower_ucs4 ucd before c after @ do_lower ucd (before @ [c]) after"

definition lower :: "unicode_data \<Rightarrow> pystr \<Rightarrow> pystr" where
  "lower ucd s = do_lower ucd [] s"

text \<open>The whitespace code points, all of them: the separators of \<open>split\<close>.\<close>

definition isspace :: "nat \<Rightarrow> bool" where
  "isspace c =
     ((0x9 \<le> c \<and> c \<le> 0xD) \<or> (0x1C \<le> c \<and> c \<le> 0x20) \<or> c = 0x85 \<or> c = 0xA0
      \<or> c = 0x1680 \<or> (0x2000 \<le> c \<and> c \<le> 0x200A) \<or> c = 0x2028 \<or> c = 0x2029
      \<or> c = 0x202F \<or> c = 0x205F \<or> c = 0x3000)"

text \<open>
  \<open>s.split()\<close> with no separator: runs of whitespace separate the words, and leading
  and trailing whitespace produces no empty word. \<open>cur\<close> is the word being read.
\<close>

fun split_from :: "pystr \<Rightarrow> pystr \<Rightarrow> pystr list" where
  "split_from cur [] = (if cur = [] then [] else [cur])"
| "split_from cur (c # cs) =
     (if isspace c
      then (if cur = [] then split_from [] cs else cur # split_from [] cs)
      else split_from (cur @ [c]) cs)"

definition split :: "pystr \<Rightarrow> pystr list" where
  "split s = split_from [] s"

text \<open>\<open>s.startswith(t)\<close> and the substring test \<open>t in s\<close>.\<close>

fun startswith :: "pystr \<Rightarrow> pystr \<Rightarrow> bool" where
  "startswith s [] = True"
| "startswith [] (c # cs) = False"
| "startswith (x # xs) (c # cs) = (x = c \<and> startswith xs cs)"

fun contains :: "pystr \<Rightarrow> pystr \<Rightarrow> bool" where
  "contains [] t = (t = [])"
| "contains (x # xs) t = (startswith (x # xs) t \<or> contains xs t)"

text \<open>The decimal rendering of a length inside an f-string.\<close>

fun str :: "nat \<Rightarrow> string" where
  "str n = (if n < 10 then [char_of (48 + n)] else str (n div 10) @ [char_of (48 + n mod 10)])"

declare str.simps [simp del]

section \<open>The content validator\<close>

text \<open>
  \<open>validate_app_store_content\<close> builds the dictionary below and returns its JSON
  rendering (\<open>json.dumps\<close>, one key per field, in this order). The model is the
  dictionary. Its first argument is the Unicode database that \<open>title.lower()\<close> uses; the
  other three are the arguments of the source.
\<close>

record validation_result =
  valid :: bool
  issues :: "string list"
  warnings :: "string list"
  title_length :: nat
  description_length :: nat
  recommendations :: "string list"

definition prohibited :: "string list" where
  "prohibited = [''#1'', ''best'', ''top rated'', ''free download'']"

definition ios_title_issue :: "nat \<Rightarrow> string" where
  "ios_title_issue n = ''iOS title too long: '' @ str n @ '' chars (max 30)''"

definition android_title_warning :: "nat \<Rightarrow> string" where
  "android_title_warning n = ''Android title long: '' @ str n @ '' chars (recommended max 30)''"

definition repeated_words_warning :: string where
  "repeated_words_warning = ''Title has repeated words (possible keyword stuffing)''"

definition discouraged_term_warning :: "string \<Rightarrow> string" where
  "discouraged_term_warning term = ''Discouraged term in title: '' @ [CHR 0x27] @ term @ [CHR 0x27]"

definition description_short_warning :: "nat \<Rightarrow> string" where
  "description_short_warning n = ''Description short: '' @ str n @ '' chars (recommended 500+)''"

definition description_long_issue :: "nat \<Rightarrow> string" where
  "description_long_issue n = ''Description too long: '' @ str n @ '' chars (max 4000)''"

text \<open>The loop over the prohibited terms; \<open>ws\<close> is the list \<open>warnings\<close> it appends to.\<close>

fun prohibited_loop ::
  "unicode_data \<Rightarrow> pystr \<Rightarrow> string list \<Rightarrow> string list \<Rightarrow> string list" where
  "prohibited_loop ucd title [] ws = ws"
| "prohibited_loop ucd title (term # terms) ws =
     prohibited_loop ucd title terms
       (if contains (lower ucd title) (codepoints term)
        then ws @ [discouraged_term_warning term] else ws)"

definition validate_app_store_content ::
  "unicode_data \<Rightarrow> pystr \<Rightarrow> pystr \<Rightarrow> pystr \<Rightarrow> validation_result" where
  "validate_app_store_content ucd title description store =
     (let issues = [];
          warnings = [];
          issues = (if store \<in> set [codepoints ''ios'', codepoints ''both''] \<and> length title > 30
                    then issues @ [ios_title_issue (length title)] else issues);
          warnings = (if store \<in> set [codepoints ''android'', codepoints ''both'']
                         \<and> length title > 50
                      then warnings @ [android_title_warning (length title)] else warnings);
          words = split (lower ucd title);
          warnings = (if length words \<noteq> card (set words)
                      then warnings @ [repeated_words_warning] else warnings);
          warnings = prohibited_loop ucd title prohibited warnings;
          warnings = (if length description < 200
                      then warnings @ [description_short_warning (length description)]
                      else warnings);
          issues = (if length description > 4000
                    then issues @ [description_long_issue (length description)] else issues)
      in \<lparr>valid = (length issues = 0),
          issues = issues,
          warnings = warnings,
          title_length = length title,
          description_length = length description,
          recommendations =
            [''Use natural language'',
             ''Focus on user benefits'',
             ''Include clear call-to-action'',
             ''Use bullet points for readability'']\<rparr>)"

section \<open>The agents and the pipeline\<close>

text \<open>
  The retry options, the model configuration and the agent descriptors are the keyword
  arguments of the constructor calls. An agent built without \<open>tools\<close> or
  \<open>output_key\<close> has the empty list and \<open>None\<close>.
\<close>

record HttpRetryOptions =
  attempts :: int
  exp_base :: int
  initial_delay :: int
  http_status_codes :: "int list"

definition retry_config :: HttpRetryOptions where
  "retry_config =
     \<lparr>attempts = 5,
      exp_base = 7,
      initial_delay = 1,
      http_status_codes = [429, 500, 502, 503, 504]\<rparr>"

record Gemini =
  gemini_model :: string
  retry_options :: HttpRetryOptions

datatype tool = google_search | validate_app_store_content_tool

record BaseAgent =
  name :: string

record Agent = BaseAgent +
  model :: Gemini
  instruction :: string
  tools :: "tool list"
  output_key :: "string option"

record SequentialAgent = BaseAgent +
  sub_agents :: "Agent list"

definition keyword_research_agent :: Agent where
  \<open>keyword_research_agent =
     \<lparr>name = ''keyword_researcher'',
      model = \<lparr>gemini_model = ''gemini-2.5-flash-lite'', retry_options = retry_config\<rparr>,
      instruction = ''You are an ASO keyword researcher. Your task:

1. Analyze the app description and category
2. Generate 15-20 relevant keyword ideas
3. Use google_search to research each keyword:
   - Search for "keyword app" to see competition
   - Search for "keyword app store" to see existing apps
   - Analyze search results to gauge popularity and competition

4. Categorize keywords:
   - Primary (5-7): High relevance, good search presence
   - Secondary (5-8): Medium relevance, moderate competition  
   - Long-tail (5-8): Specific phrases, lower competition

Return a structured analysis with keyword recommendations.'',
      tools = [google_search],
      output_key = Some ''keyword_research''\<rparr>\<close>

definition competitor_analysis_agent :: Agent where
  \<open>competitor_analysis_agent =
     \<lparr>name = ''competitor_analyst'',
      model = \<lparr>gemini_model = ''gemini-2.5-flash-lite'', retry_options = retry_config\<rparr>,
      instruction = ''You are a competitive analysis expert for app stores. Your task:

1. Use google_search to find top competitor apps:
   - Search "best [category] apps"
   - Search "top [category] apps ios/android"
   - Search for specific app types mentioned in the description

2. Analyze search results to identify:
   - Common keywords in top app titles
   - Popular features mentioned in descriptions
   - Patterns in successful apps
   - Gaps and opportunities

3. Provide insights:
   - What works in this category
   - How to differentiate
   - Unique positioning opportunities

Return a competitive analysis with actionable recommendations.'',
      tools = [google_search],
      output_key = Some ''competitor_analysis''\<rparr>\<close>

definition content_writer_agent :: Agent where
  \<open>content_writer_agent =
     \<lparr>name = ''content_writer'',
      model = \<lparr>gemini_model = ''gemini-2.5-flash-lite'', retry_options = retry_config\<rparr>,
      instruction = ''You are an ASO copywriter. Your task:

1. Review keyword research and competitive analysis from previous agents
2. Create 3 variants of:
   - Title (max 30 chars for iOS, 50 for Android)
   - Subtitle (short value proposition)
   - Description (500-1000 words, keyword-optimized)
   - Backend keywords (comma-separated)

3. Writing principles:
   - Lead with benefits, not features
   - Natural keyword integration
   - Clear call-to-action
   - Scannable format (bullets, short paragraphs)

4. Use validate_app_store_content to check each variant

Return 3 complete variants with strategy explanations.

**Keyword Research:**
{keyword_research}

**Competitor Analysis:**
{competitor_analysis}'',
      tools = [validate_app_store_content_tool],
      output_key = Some ''content_variants''\<rparr>\<close>

definition aggregator_agent :: Agent where
  \<open>aggregator_agent =
     \<lparr>name = ''aso_aggregator'',
      model = \<lparr>gemini_model = ''gemini-2.5-flash-lite'', retry_options = retry_config\<rparr>,
      instruction = ''You are the ASO_Wise final advisor. Review all the research and content variants to provide a comprehensive recommendation.

**Keyword Research:**
{keyword_research}

**Competitor Analysis:**
{competitor_analysis}

**Content Variants:**
{content_variants}

Your task:
1. Analyze all 3 content variants
2. Evaluate each variant based on:
   - Keyword optimization
   - Competitive positioning
   - App store guideline compliance
   - User appeal and clarity

3. Provide a clear recommendation:
   - Which variant is best and why
   - Key strengths of the recommended variant
   - Any final tweaks or suggestions
   - Summary of the overall ASO strategy

4. Present the final recommended listing in a clean, ready-to-use format

Be conversational and explain your reasoning. Help the user understand why this approach will work.'',
      tools = [],
      output_key = None\<rparr>\<close>

definition root_agent :: SequentialAgent where
  "root_agent =
     \<lparr>name = ''aso_wise'',
      sub_agents =
        [keyword_research_agent,
         competitor_analysis_agent,
         content_writer_agent,
         aggregator_agent]\<rparr>"

text \<open>
  Modelled from the spec: the interpolation of context keys into an instruction template
  is done by the agent framework, which is not part of the repository. A template
  references a context key by writing it between braces; \<open>placeholders\<close> lists the
  names so written, in order of occurrence. The first argument is the name being read
  inside an open brace, or \<open>None\<close> outside braces.
\<close>

fun placeholders_from :: "string option \<Rightarrow> string \<Rightarrow> string list" where
  "placeholders_from st [] = []"
| "placeholders_from None (c # cs) =
     (if c = CHR ''{'' then placeholders_from (Some []) cs else placeholders_from None cs)"
| "placeholders_from (Some cur) (c # cs) =
     (if c = CHR ''}'' then cur # placeholders_from None cs
      else if c = CHR ''{'' then placeholders_from (Some []) cs
      else placeholders_from (Some (cur @ [c])) cs)"

definition placeholders :: "string \<Rightarrow> string list" where
  "placeholders template = placeholders_from None template"

text \<open>
  Modelled from the spec: the executor that runs the stages is the framework's
  sequential agent, which is not part of the repository. Following the spec's pipeline
  executor, \<open>run\<close> takes the stages in the order of the list. Before a stage it checks
  that every key the stage's template references is in the shared context
  (\<open>ConfigurationError\<close> otherwise); it then executes the stage, stopping at a failure;
  and it stores the output under the stage's output key, which must be new
  (\<open>DuplicateOutputError\<close> otherwise). The work of a stage, with its backend and tools,
  is the parameter \<open>execute\<close>: given the stage and the context it returns the output
  text or fails. The result is the list of the completed stages with their outputs, in
  order of execution, and the final context or the error.
\<close>

datatype stage_error =
  UnknownToolError | BackendUnavailableError | StageExhaustedError | ToolExecutionError

datatype error =
  ConfigurationError | DuplicateOutputError | StageError string stage_error

type_synonym shared_context = "string \<rightharpoonup> string"

fun run ::
  "(Agent \<Rightarrow> shared_context \<Rightarrow> stage_error + string) \<Rightarrow> Agent list \<Rightarrow> shared_context
     \<Rightarrow> (string \<times> string) list \<times> (error + shared_context)" where
  "run execute [] ctx = ([], Inr ctx)"
| "run execute (a # rest) ctx =
     (if \<not> list_all (\<lambda>k. ctx k \<noteq> None) (placeholders (instruction a))
      then ([], Inl ConfigurationError)
      else
        (case execute a ctx of
           Inl e \<Rightarrow> ([], Inl (StageError (name a) e))
         | Inr out \<Rightarrow>
             (case output_key a of
                None \<Rightarrow>
                  (case run execute rest ctx of
                     (events, r) \<Rightarrow> ((name a, out) # events, r))
              | Some k \<Rightarrow>
                  if ctx k \<noteq> None then ([(name a, out)], Inl DuplicateOutputError)
                  else
                    (case run execute rest (ctx(k \<mapsto> out)) of
                       (events, r) \<Rightarrow> ((name a, out) # events, r)))))"

section \<open>String functions\<close>

lemma length_codepoints [simp]: "length (codepoints s) = length s"
  by (simp add: codepoints_def)

lemma codepoints_eq_iff [simp]: "(codepoints s = codepoints t) = (s = t)"
  by (simp add: codepoints_def inj_map_eq_map inj_on_def)

lemma startswith_iff: "startswith s t = (\<exists>r. s = t @ r)"
  by (induction s t rule: startswith.induct) auto

text \<open>\<open>contains s t\<close> holds exactly when \<open>t\<close> occurs in \<open>s\<close> as a contiguous block.\<close>

lemma contains_iff: "contains s t = (\<exists>p r. s = p @ t @ r)"
proof (induction s)
  case Nil
  then show ?case by simp
next
  case (Cons x xs)
  show ?case
  proof
    assume "contains (x # xs) t"
    then consider "startswith (x # xs) t" | "contains xs t" by auto
    then show "\<exists>p r. x # xs = p @ t @ r"
    proof cases
      case 1
      then obtain r where "x # xs = t @ r" by (auto simp add: startswith_iff)
      then have "x # xs = [] @ t @ r" by simp
      then show ?thesis by blast
    next
      case 2
      then obtain p r where "xs = p @ t @ r" using Cons.IH by auto
      then have "x # xs = (x # p) @ t @ r" by simp
      then show ?thesis by blast
    qed
  next
    assume "\<exists>p r. x # xs = p @ t @ r"
    then obtain p r where e: "x # xs = p @ t @ r" by auto
    show "contains (x # xs) t"
    proof (cases p)
      case Nil
      with e have "startswith (x # xs) t" by (auto simp add: startswith_iff)
      then show ?thesis by simp
    next
      case (Cons y ys)
      with e have "xs = ys @ t @ r" by simp
      then have "contains xs t" using Cons.IH by auto
      then show ?thesis by simp
    qed
  qed
qed

text \<open>
  The four equations that determine \<open>split\<close>: whitespace before a word is dropped, and
  a word is a maximal block without whitespace.
\<close>

lemma split_from_word:
  "\<forall>c \<in> set w. \<not> isspace c \<Longrightarrow> split_from cur (w @ rest) = split_from (cur @ w) rest"
  by (induction w arbitrary: cur) simp_all

lemma split_Nil: "split [] = []"
  by (simp add: split_def)

lemma split_space: "isspace c \<Longrightarrow> split (c # rest) = split rest"
  by (simp add: split_def)

lemma split_last_word: "w \<noteq> [] \<Longrightarrow> \<forall>c \<in> set w. \<not> isspace c \<Longrightarrow> split w = [w]"
  using split_from_word [of w "[]" "[]"] by (simp add: split_def)

lemma split_word_space:
  "w \<noteq> [] \<Longrightarrow> \<forall>c \<in> set w. \<not> isspace c \<Longrightarrow> isspace c
    \<Longrightarrow> split (w @ c # rest) = w # split rest"
  using split_from_word [of w "[]" "c # rest"] by (simp add: split_def)

text \<open>Every word of a string is a contiguous block of it.\<close>

lemma split_from_block:
  "w \<in> set (split_from cur s) \<Longrightarrow> \<exists>p r. cur @ s = p @ w @ r"
proof (induction s arbitrary: cur)
  case Nil
  then have "cur @ [] = [] @ w @ []" by (simp split: if_splits)
  then show ?case by blast
next
  case (Cons c cs)
  show ?case
  proof (cases "isspace c")
    case False
    with Cons.prems have "w \<in> set (split_from (cur @ [c]) cs)" by simp
    then obtain p r where "(cur @ [c]) @ cs = p @ w @ r" using Cons.IH by blast
    then have "cur @ c # cs = p @ w @ r" by simp
    then show ?thesis by blast
  next
    case True
    with Cons.prems consider "cur \<noteq> []" "w = cur" | "w \<in> set (split_from [] cs)"
      by (auto split: if_splits)
    then show ?thesis
    proof cases
      case 1
      then have "cur @ c # cs = [] @ w @ (c # cs)" by simp
      then show ?thesis by blast
    next
      case 2
      then obtain p r where "[] @ cs = p @ w @ r" using Cons.IH by blast
      then have "cur @ c # cs = (cur @ c # p) @ w @ r" by simp
      then show ?thesis by blast
    qed
  qed
qed

lemma split_block: "w \<in> set (split s) \<Longrightarrow> \<exists>p r. s = p @ w @ r"
  using split_from_block [of w "[]" s] by (simp add: split_def)

text \<open>The inputs of the examples, evaluated.\<close>

lemma best_app_best_lower:
  "lower ucd (codepoints ''Best App Best'') = codepoints ''best app best''"
  by (simp add: lower_def codepoints_def lower_ucs4_def lower_latin1_def)

lemma best_app_best_words:
  "split (codepoints ''best app best'') =
     [codepoints ''best'', codepoints ''app'', codepoints ''best'']"
  by (simp add: split_def codepoints_def isspace_def)

lemma bestow_lower: "lower ucd (codepoints ''Bestow'') = codepoints ''bestow''"
  by (simp add: lower_def codepoints_def lower_ucs4_def lower_latin1_def)

lemma bestow_words: "split (codepoints ''bestow'') = [codepoints ''bestow'']"
  by (simp add: split_def codepoints_def isspace_def)

lemma bestow_block: "codepoints ''bestow'' = [] @ codepoints ''best'' @ codepoints ''ow''"
  by (simp add: codepoints_def)

lemma beast_lower: "lower ucd (codepoints ''Beast'') = codepoints ''beast''"
  by (simp add: lower_def codepoints_def lower_ucs4_def lower_latin1_def)

lemma beast_no_block: "\<not> contains (codepoints ''beast'') (codepoints ''best'')"
  by (simp add: codepoints_def)

lemma ios_title_issue_31: "ios_title_issue 31 = ''iOS title too long: 31 chars (max 30)''"
  by (simp add: ios_title_issue_def str.simps char_of_def bit_Suc_0_iff)

lemma android_title_warning_51:
  "android_title_warning 51 = ''Android title long: 51 chars (recommended max 30)''"
  by (simp add: android_title_warning_def str.simps char_of_def bit_Suc_0_iff)

lemma description_short_warning_199:
  "description_short_warning 199 = ''Description short: 199 chars (recommended 500+)''"
  by (simp add: description_short_warning_def str.simps char_of_def bit_Suc_0_iff)

lemma description_long_issue_4001:
  "description_long_issue 4001 = ''Description too long: 4001 chars (max 4000)''"
  by (simp add: description_long_issue_def str.simps char_of_def bit_Suc_0_iff)

section \<open>Shape of the result\<close>

lemma issues_eq:
  "issues (validate_app_store_content ucd title description store) =
     (if store \<in> set [codepoints ''ios'', codepoints ''both''] \<and> length title > 30
      then [ios_title_issue (length title)] else []) @
     (if length description > 4000 then [description_long_issue (length description)] else [])"
  by (simp add: validate_app_store_content_def Let_def)

lemma valid_eq:
  "valid (validate_app_store_content ucd title description store) =
     (issues (validate_app_store_content ucd title description store) = [])"
  by (simp add: validate_app_store_content_def Let_def)

lemma prohibited_loop_eq:
  "prohibited_loop ucd title terms ws =
     ws @ map discouraged_term_warning
       (filter (\<lambda>term. contains (lower ucd title) (codepoints term)) terms)"
  by (induction terms arbitrary: ws) simp_all

lemma repeated_iff: "(length ws \<noteq> card (set ws)) = (\<not> distinct ws)"
  using distinct_card [of ws] card_distinct [of ws] by auto

lemma warnings_eq:
  "warnings (validate_app_store_content ucd title description store) =
     (if store \<in> set [codepoints ''android'', codepoints ''both''] \<and> length title > 50
      then [android_title_warning (length title)] else []) @
     (if \<not> distinct (split (lower ucd title)) then [repeated_words_warning] else []) @
     map discouraged_term_warning
       (filter (\<lambda>term. contains (lower ucd title) (codepoints term)) prohibited) @
     (if length description < 200 then [description_short_warning (length description)] else [])"
  by (simp add: validate_app_store_content_def Let_def prohibited_loop_eq repeated_iff)

text \<open>The six messages start differently, whatever number or term they carry.\<close>

lemma ios_neq_long [simp]:
  "ios_title_issue n \<noteq> description_long_issue m"
  "description_long_issue m \<noteq> ios_title_issue n"
  by (simp_all add: ios_title_issue_def description_long_issue_def)

lemma android_neq [simp]:
  "android_title_warning n \<noteq> repeated_words_warning"
  "android_title_warning n \<noteq> discouraged_term_warning t"
  "android_title_warning n \<noteq> description_short_warning m"
  "android_title_warning n \<noteq> ios_title_issue m"
  "android_title_warning n \<noteq> description_long_issue m"
  by (simp_all add: android_title_warning_def repeated_words_warning_def
      discouraged_term_warning_def description_short_warning_def ios_title_issue_def
      description_long_issue_def)

lemma repeated_neq [simp]:
  "repeated_words_warning \<noteq> android_title_warning n"
  "repeated_words_warning \<noteq> discouraged_term_warning t"
  "repeated_words_warning \<noteq> description_short_warning m"
  "repeated_words_warning \<noteq> ios_title_issue m"
  "repeated_words_warning \<noteq> description_long_issue m"
  by (simp_all add: android_title_warning_def repeated_words_warning_def
      discouraged_term_warning_def description_short_warning_def ios_title_issue_def
      description_long_issue_def)

lemma discouraged_neq [simp]:
  "discouraged_term_warning t \<noteq> android_title_warning n"
  "discouraged_term_warning t \<noteq> repeated_words_warning"
  "discouraged_term_warning t \<noteq> description_short_warning m"
  "discouraged_term_warning t \<noteq> ios_title_issue m"
  "discouraged_term_warning t \<noteq> description_long_issue m"
  by (simp_all add: android_title_warning_def repeated_words_warning_def
      discouraged_term_warning_def description_short_warning_def ios_title_issue_def
      description_long_issue_def)

lemma short_neq [simp]:
  "description_short_warning m \<noteq> android_title_warning n"
  "description_short_warning m \<noteq> repeated_words_warning"
  "description_short_warning m \<noteq> discouraged_term_warning t"
  "description_short_warning m \<noteq> ios_title_issue n"
  "description_short_warning m \<noteq> description_long_issue n"
  by (simp_all add: android_title_warning_def repeated_words_warning_def
      discouraged_term_warning_def description_short_warning_def ios_title_issue_def
      description_long_issue_def)

lemma discouraged_inj [simp]:
  "(discouraged_term_warning s = discouraged_term_warning t) = (s = t)"
  by (simp add: discouraged_term_warning_def)

text \<open>
  The warning naming a term is present exactly when the term is one of the prohibited
  ones and occurs in the lowercased title as a contiguous block.
\<close>

lemma discouraged_in_warnings:
  "(discouraged_term_warning t
      \<in> set (warnings (validate_app_store_content ucd title description store)))
    = (t \<in> set prohibited \<and> (\<exists>p r. lower ucd title = p @ codepoints t @ r))"
proof -
  have "(discouraged_term_warning t
      \<in> set (warnings (validate_app_store_content ucd title description store)))
    = (t \<in> set prohibited \<and> contains (lower ucd title) (codepoints t))"
    by (auto simp add: warnings_eq)
  then show ?thesis by (simp only: contains_iff)
qed

text \<open>
  C2: for every title, description and store, \<open>valid\<close> is true exactly when the list of
  blocking issues is empty; it is decided by the two blocking rules alone, so no warning
  changes it.
\<close>

theorem valid_iff_no_issues:
  "valid (validate_app_store_content ucd title description store) =
     (issues (validate_app_store_content ucd title description store) = [])
   \<and> valid (validate_app_store_content ucd title description store) =
     (\<not> (store \<in> {codepoints ''ios'', codepoints ''both''} \<and> 30 < length title)
      \<and> \<not> 4000 < length description)"
  by (simp add: validate_app_store_content_def Let_def)

text \<open>
  C8: for every input the result carries the length of the title, the length of the
  description, and the same list of four recommendations in the same order.
\<close>

theorem lengths_and_recommendations:
  "title_length (validate_app_store_content ucd title description store) = length title
   \<and> description_length (validate_app_store_content ucd title description store)
       = length description
   \<and> recommendations (validate_app_store_content ucd title description store) =
       [''Use natural language'', ''Focus on user benefits'',
        ''Include clear call-to-action'', ''Use bullet points for readability'']
   \<and> length (recommendations (validate_app_store_content ucd title description store)) = 4"
  by (simp add: validate_app_store_content_def Let_def)

section \<open>Title length rules\<close>

text \<open>
  C3: when the store is "ios" or "both", the list of blocking issues contains the iOS
  title message, which carries the length of the title and the limit 30, exactly when the
  title is longer than 30 characters; such a title makes the result invalid. A title of 30
  characters gives no such issue, one of 31 characters gives it.
\<close>

theorem ios_title_rule:
  assumes "store = codepoints ''ios'' \<or> store = codepoints ''both''"
  shows "(ios_title_issue (length title)
            \<in> set (issues (validate_app_store_content ucd title description store)))
          = (30 < length title)
       \<and> (\<exists>n. ios_title_issue n
            \<in> set (issues (validate_app_store_content ucd title description store)))
          = (30 < length title)
       \<and> (30 < length title
            \<longrightarrow> \<not> valid (validate_app_store_content ucd title description store))"
  using assms by (auto simp add: issues_eq valid_eq)

theorem ios_title_rule_witness:
  "\<forall>ucd.
     ios_title_issue 30
       \<notin> set (issues (validate_app_store_content ucd (replicate 30 0x61) []
                        (codepoints ''ios'')))
     \<and> \<not> (\<exists>n. ios_title_issue n
       \<in> set (issues (validate_app_store_content ucd (replicate 30 0x61) []
                        (codepoints ''ios''))))
     \<and> ''iOS title too long: 31 chars (max 30)''
       \<in> set (issues (validate_app_store_content ucd (replicate 31 0x61) []
                        (codepoints ''ios'')))
     \<and> \<not> valid (validate_app_store_content ucd (replicate 31 0x61) [] (codepoints ''ios''))"
proof
  fix ucd
  show "ios_title_issue 30
       \<notin> set (issues (validate_app_store_content ucd (replicate 30 0x61) []
                        (codepoints ''ios'')))
     \<and> \<not> (\<exists>n. ios_title_issue n
       \<in> set (issues (validate_app_store_content ucd (replicate 30 0x61) []
                        (codepoints ''ios''))))
     \<and> ''iOS title too long: 31 chars (max 30)''
       \<in> set (issues (validate_app_store_content ucd (replicate 31 0x61) []
                        (codepoints ''ios'')))
     \<and> \<not> valid (validate_app_store_content ucd (replicate 31 0x61) [] (codepoints ''ios''))"
    using ios_title_rule [of "codepoints ''ios''" "replicate 30 0x61" ucd "[]"]
      ios_title_rule [of "codepoints ''ios''" "replicate 31 0x61" ucd "[]"]
    by (simp add: ios_title_issue_31)
qed

text \<open>
  C5: when the store is "android" or "both", the warnings contain the Android title
  message exactly when the title is longer than 50 characters. The message is never a
  blocking issue, and the limit 50 does not enter the flag \<open>valid\<close>: with store
  "android" it depends on the description alone, with "both" also on the iOS limit 30.
  A title of 50 characters gives no such warning, one of 51 characters gives it.
\<close>

theorem android_title_rule:
  assumes "store = codepoints ''android'' \<or> store = codepoints ''both''"
  shows "(android_title_warning (length title)
            \<in> set (warnings (validate_app_store_content ucd title description store)))
          = (50 < length title)
       \<and> (\<exists>n. android_title_warning n
            \<in> set (warnings (validate_app_store_content ucd title description store)))
          = (50 < length title)
       \<and> (\<forall>n. android_title_warning n
            \<notin> set (issues (validate_app_store_content ucd title description store)))
       \<and> valid (validate_app_store_content ucd title description store)
            = (\<not> (store = codepoints ''both'' \<and> 30 < length title)
               \<and> length description \<le> 4000)"
  using assms by (auto simp add: issues_eq valid_eq warnings_eq)

theorem android_title_rule_witness:
  "\<forall>ucd.
     android_title_warning 50
       \<notin> set (warnings (validate_app_store_content ucd (replicate 50 0x61) []
                          (codepoints ''android'')))
     \<and> \<not> (\<exists>n. android_title_warning n
       \<in> set (warnings (validate_app_store_content ucd (replicate 50 0x61) []
                          (codepoints ''android''))))
     \<and> ''Android title long: 51 chars (recommended max 30)''
       \<in> set (warnings (validate_app_store_content ucd (replicate 51 0x61) []
                          (codepoints ''android'')))
     \<and> valid (validate_app_store_content ucd (replicate 51 0x61) [] (codepoints ''android''))"
proof
  fix ucd
  show "android_title_warning 50
       \<notin> set (warnings (validate_app_store_content ucd (replicate 50 0x61) []
                          (codepoints ''android'')))
     \<and> \<not> (\<exists>n. android_title_warning n
       \<in> set (warnings (validate_app_store_content ucd (replicate 50 0x61) []
                          (codepoints ''android''))))
     \<and> ''Android title long: 51 chars (recommended max 30)''
       \<in> set (warnings (validate_app_store_content ucd (replicate 51 0x61) []
                          (codepoints ''android'')))
     \<and> valid (validate_app_store_content ucd (replicate 51 0x61) [] (codepoints ''android''))"
    using android_title_rule [of "codepoints ''android''" "replicate 50 0x61" ucd "[]"]
      android_title_rule [of "codepoints ''android''" "replicate 51 0x61" ucd "[]"]
    by (simp add: android_title_warning_51)
qed

text \<open>
  C9: a store other than "ios", "android" and "both" is accepted (the validator has no
  failing path) and switches both title length rules off: whatever the length of the
  title, the result has no iOS title issue and no Android title warning, its only
  possible blocking issue is the one for a description longer than 4000 characters, and
  it is valid exactly when the description has at most 4000 characters.
\<close>

theorem other_store_skips_title_rules:
  assumes "store \<notin> {codepoints ''ios'', codepoints ''android'', codepoints ''both''}"
  shows "(\<forall>n. ios_title_issue n
            \<notin> set (issues (validate_app_store_content ucd title description store)))
       \<and> (\<forall>n. android_title_warning n
            \<notin> set (warnings (validate_app_store_content ucd title description store)))
       \<and> issues (validate_app_store_content ucd title description store) =
            (if 4000 < length description then [description_long_issue (length description)]
             else [])
       \<and> valid (validate_app_store_content ucd title description store)
            = (length description \<le> 4000)"
  using assms by (auto simp add: issues_eq valid_eq warnings_eq)

theorem other_store_skips_title_rules_witness:
  "\<forall>ucd.
     codepoints ''windows'' \<notin> {codepoints ''ios'', codepoints ''android'', codepoints ''both''}
     \<and> issues (validate_app_store_content ucd
          (replicate 300 0x4E2D) (replicate 200 0x64) (codepoints ''windows'')) = []
     \<and> valid (validate_app_store_content ucd
          (replicate 300 0x4E2D) (replicate 200 0x64) (codepoints ''windows''))
     \<and> (\<forall>n. android_title_warning n \<notin> set (warnings (validate_app_store_content ucd
          (replicate 300 0x4E2D) (replicate 200 0x64) (codepoints ''windows''))))
     \<and> [] \<notin> {codepoints ''ios'', codepoints ''android'', codepoints ''both''}
     \<and> valid (validate_app_store_content ucd (replicate 300 0x4E2D) (replicate 200 0x64) [])"
proof
  fix ucd
  have other: "codepoints ''windows''
      \<notin> {codepoints ''ios'', codepoints ''android'', codepoints ''both''}"
    by simp
  have none: "[] \<notin> {codepoints ''ios'', codepoints ''android'', codepoints ''both''}"
    by (simp add: codepoints_def)
  show "codepoints ''windows'' \<notin> {codepoints ''ios'', codepoints ''android'', codepoints ''both''}
     \<and> issues (validate_app_store_content ucd
          (replicate 300 0x4E2D) (replicate 200 0x64) (codepoints ''windows'')) = []
     \<and> valid (validate_app_store_content ucd
          (replicate 300 0x4E2D) (replicate 200 0x64) (codepoints ''windows''))
     \<and> (\<forall>n. android_title_warning n \<notin> set (warnings (validate_app_store_content ucd
          (replicate 300 0x4E2D) (replicate 200 0x64) (codepoints ''windows''))))
     \<and> [] \<notin> {codepoints ''ios'', codepoints ''android'', codepoints ''both''}
     \<and> valid (validate_app_store_content ucd (replicate 300 0x4E2D) (replicate 200 0x64) [])"
    using other none
      other_store_skips_title_rules [OF other, of ucd "replicate 300 0x4E2D" "replicate 200 0x64"]
      other_store_skips_title_rules [OF none, of ucd "replicate 300 0x4E2D" "replicate 200 0x64"]
    by simp
qed

section \<open>Description length rules\<close>

text \<open>
  C4: for every title and store, the warnings contain the short-description message
  exactly when the description has fewer than 200 characters, and that message is never
  a blocking issue; the blocking issues contain the long-description message exactly when
  the description has more than 4000 characters, and then the result is invalid. With
  exactly 4000 characters there is no description message at all, and the result is
  valid unless the iOS title rule blocks it; with 4001 the issue is present.
\<close>

theorem description_length_rules:
  "(description_short_warning (length description)
      \<in> set (warnings (validate_app_store_content ucd title description store)))
    = (length description < 200)
   \<and> (\<forall>n. description_short_warning n
        \<notin> set (issues (validate_app_store_content ucd title description store)))
   \<and> (description_long_issue (length description)
        \<in> set (issues (validate_app_store_content ucd title description store)))
      = (4000 < length description)
   \<and> (4000 < length description \<longrightarrow>
        \<not> valid (validate_app_store_content ucd title description store))
   \<and> (length description = 4000 \<longrightarrow>
        (\<forall>n. description_long_issue n
           \<notin> set (issues (validate_app_store_content ucd title description store))
         \<and> description_short_warning n
           \<notin> set (warnings (validate_app_store_content ucd title description store)))
        \<and> valid (validate_app_store_content ucd title description store)
           = (\<not> (store \<in> {codepoints ''ios'', codepoints ''both''} \<and> 30 < length title)))"
  by (auto simp add: issues_eq valid_eq warnings_eq)

theorem description_length_rules_witness:
  "\<forall>ucd.
     ''Description too long: 4001 chars (max 4000)''
       \<in> set (issues (validate_app_store_content ucd (codepoints ''App'')
                        (replicate 4001 0x64) (codepoints ''both'')))
     \<and> \<not> valid (validate_app_store_content ucd (codepoints ''App'')
                   (replicate 4001 0x64) (codepoints ''both''))
     \<and> (\<forall>n. description_long_issue n
       \<notin> set (issues (validate_app_store_content ucd (codepoints ''App'')
                        (replicate 4000 0x64) (codepoints ''both''))))
     \<and> valid (validate_app_store_content ucd (codepoints ''App'')
                 (replicate 4000 0x64) (codepoints ''both''))
     \<and> ''Description short: 199 chars (recommended 500+)''
       \<in> set (warnings (validate_app_store_content ucd (codepoints ''App'')
                          (replicate 199 0x64) (codepoints ''both'')))"
proof
  fix ucd
  show "''Description too long: 4001 chars (max 4000)''
       \<in> set (issues (validate_app_store_content ucd (codepoints ''App'')
                        (replicate 4001 0x64) (codepoints ''both'')))
     \<and> \<not> valid (validate_app_store_content ucd (codepoints ''App'')
                   (replicate 4001 0x64) (codepoints ''both''))
     \<and> (\<forall>n. description_long_issue n
       \<notin> set (issues (validate_app_store_content ucd (codepoints ''App'')
                        (replicate 4000 0x64) (codepoints ''both''))))
     \<and> valid (validate_app_store_content ucd (codepoints ''App'')
                 (replicate 4000 0x64) (codepoints ''both''))
     \<and> ''Description short: 199 chars (recommended 500+)''
       \<in> set (warnings (validate_app_store_content ucd (codepoints ''App'')
                          (replicate 199 0x64) (codepoints ''both'')))"
    using
      description_length_rules [of "replicate 4001 0x64" ucd "codepoints ''App''"
        "codepoints ''both''"]
      description_length_rules [of "replicate 4000 0x64" ucd "codepoints ''App''"
        "codepoints ''both''"]
      description_length_rules [of "replicate 199 0x64" ucd "codepoints ''App''"
        "codepoints ''both''"]
    by (simp add: description_long_issue_4001 description_short_warning_199)
qed

section \<open>Repeated words and discouraged terms\<close>

text \<open>
  C6: the title is lowercased and split on whitespace, and the warnings contain the
  repeated-words message exactly when the words are not pairwise distinct. For each of
  the terms "#1", "best", "top rated" and "free download", the warnings contain the
  message naming the term exactly when the term occurs in the lowercased title as a
  contiguous block; no other term is ever named, and neither message is a blocking
  issue. This holds for every sequence of code points as title. For the title
  "Best App Best" both warnings are present.
\<close>

theorem title_word_rules:
  "(repeated_words_warning
      \<in> set (warnings (validate_app_store_content ucd title description store)))
     = (\<not> distinct (split (lower ucd title)))
   \<and> repeated_words_warning
      \<notin> set (issues (validate_app_store_content ucd title description store))
   \<and> prohibited = [''#1'', ''best'', ''top rated'', ''free download'']
   \<and> (\<forall>term \<in> set prohibited.
        (discouraged_term_warning term
           \<in> set (warnings (validate_app_store_content ucd title description store)))
         = (\<exists>p r. lower ucd title = p @ codepoints term @ r))
   \<and> (\<forall>term. discouraged_term_warning term
          \<in> set (warnings (validate_app_store_content ucd title description store))
        \<longrightarrow> term \<in> set prohibited)
   \<and> (\<forall>term. discouraged_term_warning term
          \<notin> set (issues (validate_app_store_content ucd title description store)))
   \<and> split (lower ucd (codepoints ''Best App Best''))
        = [codepoints ''best'', codepoints ''app'', codepoints ''best'']"
proof (intro conjI)
  show "(repeated_words_warning
      \<in> set (warnings (validate_app_store_content ucd title description store)))
     = (\<not> distinct (split (lower ucd title)))"
    by (auto simp add: warnings_eq)
  show "repeated_words_warning
      \<notin> set (issues (validate_app_store_content ucd title description store))"
    by (simp add: issues_eq)
  show "prohibited = [''#1'', ''best'', ''top rated'', ''free download'']"
    by (simp add: prohibited_def)
  show "\<forall>term \<in> set prohibited.
        (discouraged_term_warning term
           \<in> set (warnings (validate_app_store_content ucd title description store)))
         = (\<exists>p r. lower ucd title = p @ codepoints term @ r)"
    by (simp add: discouraged_in_warnings)
  show "\<forall>term. discouraged_term_warning term
          \<in> set (warnings (validate_app_store_content ucd title description store))
        \<longrightarrow> term \<in> set prohibited"
    by (simp add: discouraged_in_warnings)
  show "\<forall>term. discouraged_term_warning term
          \<notin> set (issues (validate_app_store_content ucd title description store))"
    by (simp add: issues_eq)
  show "split (lower ucd (codepoints ''Best App Best''))
        = [codepoints ''best'', codepoints ''app'', codepoints ''best'']"
    by (simp only: best_app_best_lower best_app_best_words)
qed

text \<open>
  The second title of the witness is outside Latin-1: the same ideograph twice, with the
  ideographic space U+3000 between. It is evaluated for a database whose lowercase
  mapping changes nothing above U+00FF.
\<close>

theorem title_word_rules_witness:
  "(\<forall>ucd.
      ''best'' \<in> set prohibited
      \<and> repeated_words_warning
           \<in> set (warnings (validate_app_store_content ucd
                 (codepoints ''Best App Best'') [] (codepoints ''both'')))
      \<and> discouraged_term_warning ''best''
           \<in> set (warnings (validate_app_store_content ucd
                 (codepoints ''Best App Best'') [] (codepoints ''both''))))
   \<and> repeated_words_warning
        \<in> set (warnings (validate_app_store_content
              \<lparr>to_lower_full = (\<lambda>c. [c]), is_cased = (\<lambda>c. False),
                is_case_ignorable = (\<lambda>c. False)\<rparr>
              [0x4E2D, 0x3000, 0x4E2D] [] (codepoints ''both'')))"
proof (intro conjI allI)
  fix ucd
  note rules = title_word_rules [of ucd "codepoints ''Best App Best''" "[]" "codepoints ''both''"]
  show listed: "''best'' \<in> set prohibited"
    by (simp add: prohibited_def)
  have "codepoints ''best app best'' = [] @ codepoints ''best'' @ codepoints '' app best''"
    by (simp add: codepoints_def)
  then have block: "\<exists>p r. lower ucd (codepoints ''Best App Best'') = p @ codepoints ''best'' @ r"
    unfolding best_app_best_lower by blast
  have repeated: "\<not> distinct (split (lower ucd (codepoints ''Best App Best'')))"
    by (simp add: best_app_best_lower best_app_best_words)
  from rules repeated show "repeated_words_warning
           \<in> set (warnings (validate_app_store_content ucd
                 (codepoints ''Best App Best'') [] (codepoints ''both'')))"
    by blast
  from rules listed block show "discouraged_term_warning ''best''
           \<in> set (warnings (validate_app_store_content ucd
                 (codepoints ''Best App Best'') [] (codepoints ''both'')))"
    by blast
next
  have "\<not> distinct (split (lower
      \<lparr>to_lower_full = (\<lambda>c. [c]), is_cased = (\<lambda>c. False), is_case_ignorable = (\<lambda>c. False)\<rparr>
      [0x4E2D, 0x3000, 0x4E2D]))"
    by (simp add: lower_def lower_ucs4_def split_def isspace_def)
  with title_word_rules [of
      "\<lparr>to_lower_full = (\<lambda>c. [c]), is_cased = (\<lambda>c. False), is_case_ignorable = (\<lambda>c. False)\<rparr>"
      "[0x4E2D, 0x3000, 0x4E2D]" "[]" "codepoints ''both''"]
  show "repeated_words_warning
        \<in> set (warnings (validate_app_store_content
              \<lparr>to_lower_full = (\<lambda>c. [c]), is_cased = (\<lambda>c. False),
                is_case_ignorable = (\<lambda>c. False)\<rparr>
              [0x4E2D, 0x3000, 0x4E2D] [] (codepoints ''both'')))"
    by blast
qed

text \<open>
  C10: the discouraged-term rule is a substring test on the lowercased title, not a test
  on its words. For each prohibited term the warning is present exactly when the term
  occurs in the lowercased title as a contiguous block; a term that is one of the words
  is such a block, so it is warned about, and the converse fails: the title "Bestow" is
  the single word "bestow", "best" is not one of its words, and the warning for "best"
  is emitted all the same. The title "Beast" does not contain "best" and gets no such
  warning.
\<close>

theorem discouraged_term_raw_substring:
  "(\<forall>term \<in> set prohibited.
      (discouraged_term_warning term
         \<in> set (warnings (validate_app_store_content ucd title description store)))
       = (\<exists>p r. lower ucd title = p @ codepoints term @ r))
   \<and> (\<forall>term \<in> set prohibited.
        codepoints term \<in> set (split (lower ucd title)) \<longrightarrow>
        discouraged_term_warning term
          \<in> set (warnings (validate_app_store_content ucd title description store)))
   \<and> split (lower ucd (codepoints ''Bestow'')) = [codepoints ''bestow'']
   \<and> codepoints ''best'' \<notin> set (split (lower ucd (codepoints ''Bestow'')))
   \<and> discouraged_term_warning ''best''
        \<in> set (warnings (validate_app_store_content ucd (codepoints ''Bestow'')
              description store))
   \<and> discouraged_term_warning ''best''
        \<notin> set (warnings (validate_app_store_content ucd (codepoints ''Beast'')
              description store))"
proof (intro conjI)
  show "\<forall>term \<in> set prohibited.
      (discouraged_term_warning term
         \<in> set (warnings (validate_app_store_content ucd title description store)))
       = (\<exists>p r. lower ucd title = p @ codepoints term @ r)"
    by (simp add: discouraged_in_warnings)
  show "\<forall>term \<in> set prohibited.
        codepoints term \<in> set (split (lower ucd title)) \<longrightarrow>
        discouraged_term_warning term
          \<in> set (warnings (validate_app_store_content ucd title description store))"
    using split_block [of _ "lower ucd title"] by (auto simp add: discouraged_in_warnings)
  show "split (lower ucd (codepoints ''Bestow'')) = [codepoints ''bestow'']"
    by (simp only: bestow_lower bestow_words)
  show "codepoints ''best'' \<notin> set (split (lower ucd (codepoints ''Bestow'')))"
    by (simp add: bestow_lower bestow_words)
  have "''best'' \<in> set prohibited"
    by (simp add: prohibited_def)
  moreover have "\<exists>p r. lower ucd (codepoints ''Bestow'') = p @ codepoints ''best'' @ r"
    unfolding bestow_lower using bestow_block by blast
  ultimately show "discouraged_term_warning ''best''
        \<in> set (warnings (validate_app_store_content ucd (codepoints ''Bestow'')
              description store))"
    by (simp add: discouraged_in_warnings)
  show "discouraged_term_warning ''best''
        \<notin> set (warnings (validate_app_store_content ucd (codepoints ''Beast'')
              description store))"
    using beast_no_block by (simp add: discouraged_in_warnings beast_lower contains_iff)
qed

theorem discouraged_term_raw_substring_witness:
  "\<forall>ucd.
     ''best'' \<in> set prohibited
     \<and> (\<exists>p r. lower ucd (codepoints ''Bestow'') = p @ codepoints ''best'' @ r)
     \<and> discouraged_term_warning ''best''
          \<in> set (warnings (validate_app_store_content ucd (codepoints ''Bestow'') []
                (codepoints ''both'')))
     \<and> ''top rated'' \<in> set prohibited
     \<and> codepoints ''top rated'' \<notin> set (split (lower ucd (codepoints ''Top Rated'')))
     \<and> discouraged_term_warning ''top rated''
          \<in> set (warnings (validate_app_store_content ucd (codepoints ''Top Rated'') []
                (codepoints ''both'')))"
proof (intro allI conjI)
  fix ucd
  show listed: "''best'' \<in> set prohibited"
    by (simp add: prohibited_def)
  show block: "\<exists>p r. lower ucd (codepoints ''Bestow'') = p @ codepoints ''best'' @ r"
    unfolding bestow_lower using bestow_block by blast
  from discouraged_term_raw_substring
      [of ucd "codepoints ''Bestow''" "[]" "codepoints ''both''"] listed block
  show "discouraged_term_warning ''best''
          \<in> set (warnings (validate_app_store_content ucd (codepoints ''Bestow'') []
                (codepoints ''both'')))"
    by blast
  show listed': "''top rated'' \<in> set prohibited"
    by (simp add: prohibited_def)
  have low: "lower ucd (codepoints ''Top Rated'') = codepoints ''top rated''"
    by (simp add: lower_def codepoints_def lower_ucs4_def lower_latin1_def)
  show "codepoints ''top rated'' \<notin> set (split (lower ucd (codepoints ''Top Rated'')))"
    unfolding low by (simp add: split_def codepoints_def isspace_def)
  have "codepoints ''top rated'' = [] @ codepoints ''top rated'' @ []"
    by simp
  then have "\<exists>p r. lower ucd (codepoints ''Top Rated'') = p @ codepoints ''top rated'' @ r"
    unfolding low by blast
  with discouraged_term_raw_substring
      [of ucd "codepoints ''Top Rated''" "[]" "codepoints ''both''"] listed'
  show "discouraged_term_warning ''top rated''
          \<in> set (warnings (validate_app_store_content ucd (codepoints ''Top Rated'') []
                (codepoints ''both'')))"
    by blast
qed

section \<open>The pipeline\<close>

lemma placeholders_keyword_research_agent:
  "placeholders (instruction keyword_research_agent) = []"
  by code_simp

lemma placeholders_competitor_analysis_agent:
  "placeholders (instruction competitor_analysis_agent) = []"
  by code_simp

lemma placeholders_content_writer_agent:
  "placeholders (instruction content_writer_agent) =
     [''keyword_research'', ''competitor_analysis'']"
  by code_simp

lemma placeholders_aggregator_agent:
  "placeholders (instruction aggregator_agent) =
     [''keyword_research'', ''competitor_analysis'', ''content_variants'']"
  by code_simp

lemma stage_names:
  "name keyword_research_agent = ''keyword_researcher''"
  "name competitor_analysis_agent = ''competitor_analyst''"
  "name content_writer_agent = ''content_writer''"
  "name aggregator_agent = ''aso_aggregator''"
  by (simp_all add: keyword_research_agent_def competitor_analysis_agent_def
      content_writer_agent_def aggregator_agent_def)

lemma stage_keys:
  "output_key keyword_research_agent = Some ''keyword_research''"
  "output_key competitor_analysis_agent = Some ''competitor_analysis''"
  "output_key content_writer_agent = Some ''content_variants''"
  "output_key aggregator_agent = None"
  by (simp_all add: keyword_research_agent_def competitor_analysis_agent_def
      content_writer_agent_def aggregator_agent_def)

lemma stage_retry:
  "retry_options (model keyword_research_agent) = retry_config"
  "retry_options (model competitor_analysis_agent) = retry_config"
  "retry_options (model content_writer_agent) = retry_config"
  "retry_options (model aggregator_agent) = retry_config"
  by (simp_all add: keyword_research_agent_def competitor_analysis_agent_def
      content_writer_agent_def aggregator_agent_def)

lemma stages:
  "sub_agents root_agent =
     [keyword_research_agent, competitor_analysis_agent, content_writer_agent, aggregator_agent]"
  by (simp add: root_agent_def)

text \<open>Every key a stage references is the output key of a stage before it.\<close>

lemma forward_only:
  "\<forall>i < length (sub_agents root_agent).
     \<forall>k \<in> set (placeholders (instruction (sub_agents root_agent ! i))).
       \<exists>j < i. output_key (sub_agents root_agent ! j) = Some k"
proof (intro allI impI ballI)
  fix i k
  assume i: "i < length (sub_agents root_agent)"
    and k: "k \<in> set (placeholders (instruction (sub_agents root_agent ! i)))"
  from i consider "i = 0" | "i = 1" | "i = 2" | "i = 3"
    unfolding stages by force
  then show "\<exists>j < i. output_key (sub_agents root_agent ! j) = Some k"
  proof cases
    case 1
    with k show ?thesis
      by (simp add: stages placeholders_keyword_research_agent)
  next
    case 2
    with k show ?thesis
      by (simp add: stages placeholders_competitor_analysis_agent)
  next
    case 3
    with k have "k = ''keyword_research'' \<or> k = ''competitor_analysis''"
      by (simp add: stages placeholders_content_writer_agent)
    then show ?thesis
    proof
      assume "k = ''keyword_research''"
      then have "0 < i \<and> output_key (sub_agents root_agent ! 0) = Some k"
        using 3 by (simp add: stages stage_keys)
      then show ?thesis by blast
    next
      assume "k = ''competitor_analysis''"
      then have "1 < i \<and> output_key (sub_agents root_agent ! 1) = Some k"
        using 3 by (simp add: stages stage_keys)
      then show ?thesis by blast
    qed
  next
    case 4
    with k consider "k = ''keyword_research''" | "k = ''competitor_analysis''"
      | "k = ''content_variants''"
      by (auto simp add: stages placeholders_aggregator_agent)
    then show ?thesis
    proof cases
      case 1
      then have "0 < i \<and> output_key (sub_agents root_agent ! 0) = Some k"
        using 4 by (simp add: stages stage_keys)
      then show ?thesis by blast
    next
      case 2
      then have "1 < i \<and> output_key (sub_agents root_agent ! 1) = Some k"
        using 4 by (simp add: stages stage_keys)
      then show ?thesis by blast
    next
      case 3
      then have "2 < i \<and> output_key (sub_agents root_agent ! 2) = Some k"
        using 4 by (simp add: stages stage_keys)
      then show ?thesis by blast
    qed
  qed
qed

text \<open>
  The run of the pipeline from the empty context, for any behaviour of the stages: each
  stage is executed after the ones before it, in the context that holds their outputs,
  and the run stops at the first stage that fails.
\<close>

lemma run_root_agent:
  "run execute (sub_agents root_agent) Map.empty =
     (case execute keyword_research_agent Map.empty of
        Inl e \<Rightarrow> ([], Inl (StageError ''keyword_researcher'' e))
      | Inr o1 \<Rightarrow>
     (case execute competitor_analysis_agent [''keyword_research'' \<mapsto> o1] of
        Inl e \<Rightarrow> ([(''keyword_researcher'', o1)], Inl (StageError ''competitor_analyst'' e))
      | Inr o2 \<Rightarrow>
     (case execute content_writer_agent
             [''keyword_research'' \<mapsto> o1, ''competitor_analysis'' \<mapsto> o2] of
        Inl e \<Rightarrow>
          ([(''keyword_researcher'', o1), (''competitor_analyst'', o2)],
           Inl (StageError ''content_writer'' e))
      | Inr o3 \<Rightarrow>
     (case execute aggregator_agent
             [''keyword_research'' \<mapsto> o1, ''competitor_analysis'' \<mapsto> o2,
              ''content_variants'' \<mapsto> o3] of
        Inl e \<Rightarrow>
          ([(''keyword_researcher'', o1), (''competitor_analyst'', o2),
            (''content_writer'', o3)],
           Inl (StageError ''aso_aggregator'' e))
      | Inr o4 \<Rightarrow>
          ([(''keyword_researcher'', o1), (''competitor_analyst'', o2),
            (''content_writer'', o3), (''aso_aggregator'', o4)],
           Inr [''keyword_research'' \<mapsto> o1, ''competitor_analysis'' \<mapsto> o2,
                ''content_variants'' \<mapsto> o3])))))"
  by (simp add: stages stage_names stage_keys placeholders_keyword_research_agent
      placeholders_competitor_analysis_agent placeholders_content_writer_agent
      placeholders_aggregator_agent split: sum.splits)

text \<open>
  C1, as the code has it: the pipeline is the list of four stages named
  keyword_researcher, competitor_analyst, content_writer and aso_aggregator, executed in
  this order. Their output keys are keyword_research, competitor_analysis and
  content_variants, pairwise distinct, and the aggregator declares none. The first two
  templates reference no key, the content writer's references keyword_research and
  competitor_analysis, the aggregator's references all three, and every key a template
  references is the output key of a strictly earlier stage.
\<close>

theorem pipeline_stages:
  "map name (sub_agents root_agent) =
     [''keyword_researcher'', ''competitor_analyst'', ''content_writer'', ''aso_aggregator'']
   \<and> map output_key (sub_agents root_agent) =
     [Some ''keyword_research'', Some ''competitor_analysis'', Some ''content_variants'', None]
   \<and> distinct [''keyword_research'', ''competitor_analysis'', ''content_variants'']
   \<and> map (\<lambda>a. placeholders (instruction a)) (sub_agents root_agent) =
     [[], [],
      [''keyword_research'', ''competitor_analysis''],
      [''keyword_research'', ''competitor_analysis'', ''content_variants'']]
   \<and> (\<forall>i < length (sub_agents root_agent).
        \<forall>k \<in> set (placeholders (instruction (sub_agents root_agent ! i))).
          \<exists>j < i. output_key (sub_agents root_agent ! j) = Some k)
   \<and> (\<forall>execute.
        run execute (sub_agents root_agent) Map.empty =
          (case execute keyword_research_agent Map.empty of
             Inl e \<Rightarrow> ([], Inl (StageError ''keyword_researcher'' e))
           | Inr o1 \<Rightarrow>
          (case execute competitor_analysis_agent [''keyword_research'' \<mapsto> o1] of
             Inl e \<Rightarrow>
               ([(''keyword_researcher'', o1)], Inl (StageError ''competitor_analyst'' e))
           | Inr o2 \<Rightarrow>
          (case execute content_writer_agent
                  [''keyword_research'' \<mapsto> o1, ''competitor_analysis'' \<mapsto> o2] of
             Inl e \<Rightarrow>
               ([(''keyword_researcher'', o1), (''competitor_analyst'', o2)],
                Inl (StageError ''content_writer'' e))
           | Inr o3 \<Rightarrow>
          (case execute aggregator_agent
                  [''keyword_research'' \<mapsto> o1, ''competitor_analysis'' \<mapsto> o2,
                   ''content_variants'' \<mapsto> o3] of
             Inl e \<Rightarrow>
               ([(''keyword_researcher'', o1), (''competitor_analyst'', o2),
                 (''content_writer'', o3)],
                Inl (StageError ''aso_aggregator'' e))
           | Inr o4 \<Rightarrow>
               ([(''keyword_researcher'', o1), (''competitor_analyst'', o2),
                 (''content_writer'', o3), (''aso_aggregator'', o4)],
                Inr [''keyword_research'' \<mapsto> o1, ''competitor_analysis'' \<mapsto> o2,
                     ''content_variants'' \<mapsto> o3]))))))"
proof (intro conjI)
  show "\<forall>i < length (sub_agents root_agent).
        \<forall>k \<in> set (placeholders (instruction (sub_agents root_agent ! i))).
          \<exists>j < i. output_key (sub_agents root_agent ! j) = Some k"
    by (rule forward_only)
  show "\<forall>execute.
        run execute (sub_agents root_agent) Map.empty =
          (case execute keyword_research_agent Map.empty of
             Inl e \<Rightarrow> ([], Inl (StageError ''keyword_researcher'' e))
           | Inr o1 \<Rightarrow>
          (case execute competitor_analysis_agent [''keyword_research'' \<mapsto> o1] of
             Inl e \<Rightarrow>
               ([(''keyword_researcher'', o1)], Inl (StageError ''competitor_analyst'' e))
           | Inr o2 \<Rightarrow>
          (case execute content_writer_agent
                  [''keyword_research'' \<mapsto> o1, ''competitor_analysis'' \<mapsto> o2] of
             Inl e \<Rightarrow>
               ([(''keyword_researcher'', o1), (''competitor_analyst'', o2)],
                Inl (StageError ''content_writer'' e))
           | Inr o3 \<Rightarrow>
          (case execute aggregator_agent
                  [''keyword_research'' \<mapsto> o1, ''competitor_analysis'' \<mapsto> o2,
                   ''content_variants'' \<mapsto> o3] of
             Inl e \<Rightarrow>
               ([(''keyword_researcher'', o1), (''competitor_analyst'', o2),
                 (''content_writer'', o3)],
                Inl (StageError ''aso_aggregator'' e))
           | Inr o4 \<Rightarrow>
               ([(''keyword_researcher'', o1), (''competitor_analyst'', o2),
                 (''content_writer'', o3), (''aso_aggregator'', o4)],
                Inr [''keyword_research'' \<mapsto> o1, ''competitor_analysis'' \<mapsto> o2,
                     ''content_variants'' \<mapsto> o3])))))"
    by (intro allI) (rule run_root_agent)
qed (simp_all add: stages stage_names stage_keys placeholders_keyword_research_agent
      placeholders_competitor_analysis_agent placeholders_content_writer_agent
      placeholders_aggregator_agent)

text \<open>
  The witness takes the third stage and the key keyword_research, and runs the pipeline
  with stages that all succeed, each returning its own name as output.
\<close>

theorem pipeline_stages_witness:
  "2 < length (sub_agents root_agent)
   \<and> ''keyword_research'' \<in> set (placeholders (instruction (sub_agents root_agent ! 2)))
   \<and> (\<exists>j < 2. output_key (sub_agents root_agent ! j) = Some ''keyword_research'')
   \<and> map fst (fst (run (\<lambda>a ctx. Inr (name a)) (sub_agents root_agent) Map.empty)) =
       [''keyword_researcher'', ''competitor_analyst'', ''content_writer'', ''aso_aggregator'']
   \<and> snd (run (\<lambda>a ctx. Inr (name a)) (sub_agents root_agent) Map.empty) =
       Inr [''keyword_research'' \<mapsto> ''keyword_researcher'',
            ''competitor_analysis'' \<mapsto> ''competitor_analyst'',
            ''content_variants'' \<mapsto> ''content_writer'']"
proof -
  have len: "2 < length (sub_agents root_agent)"
    by (simp add: stages)
  have mem: "''keyword_research'' \<in> set (placeholders (instruction (sub_agents root_agent ! 2)))"
    by (simp add: stages placeholders_content_writer_agent)
  from pipeline_stages have "\<forall>i < length (sub_agents root_agent).
        \<forall>k \<in> set (placeholders (instruction (sub_agents root_agent ! i))).
          \<exists>j < i. output_key (sub_agents root_agent ! j) = Some k"
    by blast
  with len mem have earlier:
    "\<exists>j < 2. output_key (sub_agents root_agent ! j) = Some ''keyword_research''"
    by blast
  from pipeline_stages have "\<forall>execute.
        run execute (sub_agents root_agent) Map.empty =
          (case execute keyword_research_agent Map.empty of
             Inl e \<Rightarrow> ([], Inl (StageError ''keyword_researcher'' e))
           | Inr o1 \<Rightarrow>
          (case execute competitor_analysis_agent [''keyword_research'' \<mapsto> o1] of
             Inl e \<Rightarrow>
               ([(''keyword_researcher'', o1)], Inl (StageError ''competitor_analyst'' e))
           | Inr o2 \<Rightarrow>
          (case execute content_writer_agent
                  [''keyword_research'' \<mapsto> o1, ''competitor_analysis'' \<mapsto> o2] of
             Inl e \<Rightarrow>
               ([(''keyword_researcher'', o1), (''competitor_analyst'', o2)],
                Inl (StageError ''content_writer'' e))
           | Inr o3 \<Rightarrow>
          (case execute aggregator_agent
                  [''keyword_research'' \<mapsto> o1, ''competitor_analysis'' \<mapsto> o2,
                   ''content_variants'' \<mapsto> o3] of
             Inl e \<Rightarrow>
               ([(''keyword_researcher'', o1), (''competitor_analyst'', o2),
                 (''content_writer'', o3)],
                Inl (StageError ''aso_aggregator'' e))
           | Inr o4 \<Rightarrow>
               ([(''keyword_researcher'', o1), (''competitor_analyst'', o2),
                 (''content_writer'', o3), (''aso_aggregator'', o4)],
                Inr [''keyword_research'' \<mapsto> o1, ''competitor_analysis'' \<mapsto> o2,
                     ''content_variants'' \<mapsto> o3])))))"
    by (elim conjE)
  then have "run (\<lambda>a ctx. Inr (name a)) (sub_agents root_agent) Map.empty =
      ([(''keyword_researcher'', ''keyword_researcher''),
        (''competitor_analyst'', ''competitor_analyst''),
        (''content_writer'', ''content_writer''),
        (''aso_aggregator'', ''aso_aggregator'')],
       Inr [''keyword_research'' \<mapsto> ''keyword_researcher'',
            ''competitor_analysis'' \<mapsto> ''competitor_analyst'',
            ''content_variants'' \<mapsto> ''content_writer''])"
    by (simp add: stage_names)
  with len mem earlier show ?thesis by simp
qed

text \<open>
  The second stage is named competitor_analyst; competitor_analysis is its output key,
  not its name.
\<close>

theorem pipeline_stage_names_counterexample:
  "map name (sub_agents root_agent) \<noteq>
     [''keyword_researcher'', ''competitor_analysis'', ''content_writer'', ''aso_aggregator'']"
  by (simp add: stages stage_names)

text \<open>
  C7: each of the four stages has the same retry options: 5 attempts, exponential base
  7, initial delay 1, and the status codes 429, 500, 502, 503 and 504.
\<close>

theorem retry_policy:
  "map (\<lambda>a. retry_options (model a)) (sub_agents root_agent) =
     [retry_config, retry_config, retry_config, retry_config]
   \<and> length (sub_agents root_agent) = 4
   \<and> attempts retry_config = 5
   \<and> exp_base retry_config = 7
   \<and> initial_delay retry_config = 1
   \<and> http_status_codes retry_config = [429, 500, 502, 503, 504]
   \<and> set (http_status_codes retry_config) = {429, 500, 502, 503, 504}"
  by (simp add: stages stage_retry retry_config_def)

end
